theory Spec2Isabelle
  imports Main "HOL-Library.Word"
begin

section \<open>JavaScript strings\<close>

text \<open>
  A JavaScript string is a sequence of UTF-16 code units. The widgets only ever
  compare, concatenate, trim and regex-replace strings, all of which work on code
  units, so a string is a list of 16-bit words. \<open>lit\<close> embeds an ASCII literal of
  the source (one code unit per character).
\<close>

type_synonym jschar = "16 word"
type_synonym jsstring = "jschar list"

definition lit :: "string \<Rightarrow> jsstring" where
  "lit s = map of_char s"

definition BACKSLASH :: jschar where "BACKSLASH = 0x5C"
definition SQUOTE :: jschar where "SQUOTE = 0x27"
definition DQUOTE :: jschar where "DQUOTE = 0x22"
definition LF :: jschar where "LF = 0x0A"
definition SPACE :: jschar where "SPACE = 0x20"

text \<open>
  The characters matched by the regular expression class \<^verbatim>\<open>\s\<close> and stripped by
  \<^verbatim>\<open>String.prototype.trim\<close>: ECMAScript's WhiteSpace and LineTerminator code
  points (TAB, LF, VT, FF, CR, SP, NBSP, the Unicode space separators, LS, PS and
  the byte order mark).
\<close>

definition isWhiteSpace :: "jschar \<Rightarrow> bool" where
  "isWhiteSpace c =
     (c = 0x09 \<or> c = 0x0A \<or> c = 0x0B \<or> c = 0x0C \<or> c = 0x0D \<or> c = 0x20 \<or>
      c = 0xA0 \<or> c = 0x1680 \<or> (0x2000 \<le> c \<and> c \<le> 0x200A) \<or>
      c = 0x2028 \<or> c = 0x2029 \<or> c = 0x202F \<or> c = 0x205F \<or> c = 0x3000 \<or>
      c = 0xFEFF)"

text \<open>\<^verbatim>\<open>s.trim()\<close>\<close>

definition trim :: "jsstring \<Rightarrow> jsstring" where
  "trim s = rev (dropWhile isWhiteSpace (rev (dropWhile isWhiteSpace s)))"

text \<open>
  \<^verbatim>\<open>s.replace(/c/g, r)\<close> for a pattern that is one literal character and a
  replacement \<open>r\<close> without \<^verbatim>\<open>$\<close>: every occurrence of \<open>c\<close> becomes \<open>r\<close>.
\<close>

definition replaceAll :: "jschar \<Rightarrow> jsstring \<Rightarrow> jsstring \<Rightarrow> jsstring" where
  "replaceAll c r s = concat (map (\<lambda>x. if x = c then r else [x]) s)"

text \<open>
  \<^verbatim>\<open>s.replace(/\s+/g, ' ')\<close>: every maximal run of whitespace becomes one space.
\<close>

function collapseWhitespace :: "jsstring \<Rightarrow> jsstring" where
  "collapseWhitespace [] = []"
| "collapseWhitespace (c # cs) =
     (if isWhiteSpace c then SPACE # collapseWhitespace (dropWhile isWhiteSpace cs)
      else c # collapseWhitespace cs)"
  by pat_completeness auto
termination
  by (relation "measure length") (auto simp: less_Suc_eq_le length_dropWhile_le)

text \<open>\<^verbatim>\<open>s.startsWith(p)\<close>\<close>

definition startsWith :: "jsstring \<Rightarrow> jsstring \<Rightarrow> bool" where
  "startsWith s p = (take (length p) s = p)"

text \<open>\<^verbatim>\<open>xs.join(sep)\<close> on an array of strings\<close>

fun join :: "jsstring \<Rightarrow> jsstring list \<Rightarrow> jsstring" where
  "join sep [] = []"
| "join sep [x] = x"
| "join sep (x # y # ys) = x @ sep @ join sep (y # ys)"

text \<open>
  \<^verbatim>\<open>n.toString()\<close> for a non-negative integer such as an array length plus one:
  its decimal digits.
\<close>

fun toString :: "nat \<Rightarrow> jsstring" where
  "toString n =
     (if n < 10 then [of_nat (48 + n)]
      else toString (n div 10) @ [of_nat (48 + n mod 10)])"

declare toString.simps [simp del]

subsection \<open>JSON.stringify on strings\<close>

text \<open>
  ECMAScript's QuoteJSONString: the string between double quotes, with backspace,
  tab, line feed, form feed, carriage return, the double quote and the backslash
  written as two-character escapes, other control characters and lone surrogates
  as \<^verbatim>\<open>\uXXXX\<close> (lower-case hexadecimal), and everything else as it is.
\<close>

definition hexDigit :: "nat \<Rightarrow> jschar" where
  "hexDigit d = (if d < 10 then of_nat (48 + d) else of_nat (87 + d))"

definition unicodeEscape :: "jschar \<Rightarrow> jsstring" where
  "unicodeEscape c =
     [BACKSLASH, 0x75, hexDigit (unat c div 4096), hexDigit (unat c div 256 mod 16),
      hexDigit (unat c div 16 mod 16), hexDigit (unat c mod 16)]"

definition isLeadingSurrogate :: "jschar \<Rightarrow> bool" where
  "isLeadingSurrogate c = (0xD800 \<le> c \<and> c \<le> 0xDBFF)"

definition isTrailingSurrogate :: "jschar \<Rightarrow> bool" where
  "isTrailingSurrogate c = (0xDC00 \<le> c \<and> c \<le> 0xDFFF)"

definition quoteUnit :: "jschar \<Rightarrow> jsstring" where
  "quoteUnit c =
     (if c = 0x08 then [BACKSLASH, 0x62]
      else if c = 0x09 then [BACKSLASH, 0x74]
      else if c = 0x0A then [BACKSLASH, 0x6E]
      else if c = 0x0C then [BACKSLASH, 0x66]
      else if c = 0x0D then [BACKSLASH, 0x72]
      else if c = 0x22 then [BACKSLASH, 0x22]
      else if c = 0x5C then [BACKSLASH, 0x5C]
      else if c < 0x20 then unicodeEscape c
      else [c])"

fun quoteChars :: "jsstring \<Rightarrow> jsstring" where
  "quoteChars [] = []"
| "quoteChars (c # cs) =
     (if isLeadingSurrogate c then
        (case cs of
           [] \<Rightarrow> unicodeEscape c
         | d # ds \<Rightarrow>
             if isTrailingSurrogate d then c # d # quoteChars ds
             else unicodeEscape c @ quoteChars cs)
      else if isTrailingSurrogate c then unicodeEscape c @ quoteChars cs
      else quoteUnit c @ quoteChars cs)"

definition quoteJSONString :: "jsstring \<Rightarrow> jsstring" where
  "quoteJSONString s = DQUOTE # quoteChars s @ [DQUOTE]"

text \<open>
  \<^verbatim>\<open>JSON.stringify({ title, url })\<close> and \<^verbatim>\<open>JSON.stringify\<close> of an array of such
  objects, without an indent argument: no whitespace between the tokens, the
  properties in insertion order.
\<close>

definition stringifyLink :: "jsstring \<times> jsstring \<Rightarrow> jsstring" where
  \<open>stringifyLink p =
     lit ''{"title":'' @ quoteJSONString (fst p) @ lit '',"url":'' @
     quoteJSONString (snd p) @ lit ''}''\<close>

definition stringifyLinks :: "(jsstring \<times> jsstring) list \<Rightarrow> jsstring" where
  "stringifyLinks ps = lit ''['' @ join (lit '','') (map stringifyLink ps) @ lit '']''"

section \<open>DocFooterGenerator\<close>

text \<open>
  The interfaces \<^verbatim>\<open>RelatedLink\<close> and \<^verbatim>\<open>SeeAlsoLink\<close> have the same shape, and
  TypeScript's typing is structural: one record serves both. \<^verbatim>\<open>urlError\<close> is an
  optional property.
\<close>

record RelatedLink =
  title :: jsstring
  url :: jsstring
  urlError :: "jsstring option"

type_synonym SeeAlsoLink = RelatedLink

text \<open>The component's four \<^verbatim>\<open>useState\<close> cells.\<close>

record DocFooter =
  df_links :: "RelatedLink list"
  df_seeAlso :: "SeeAlsoLink option"
  df_copied :: bool
  df_showSeeAlso :: bool

definition emptyLink :: RelatedLink where
  "emptyLink = \<lparr>title = [], url = [], urlError = Some []\<rparr>"

definition init_df :: DocFooter where
  "init_df = \<lparr>df_links = [emptyLink], df_seeAlso = None, df_copied = False,
              df_showSeeAlso = False\<rparr>"

definition validateUrl :: "jsstring \<Rightarrow> jsstring" where
  "validateUrl u =
     (if u = [] then lit ''URL is required''
      else if \<not> startsWith u (lit ''/docs'') then lit ''URL must start with /docs''
      else [])"

definition handleAddLink :: "DocFooter \<Rightarrow> DocFooter" where
  "handleAddLink s = s\<lparr>df_links := df_links s @ [emptyLink]\<rparr>"

definition handleRemoveLink :: "nat \<Rightarrow> DocFooter \<Rightarrow> DocFooter" where
  "handleRemoveLink index s =
     s\<lparr>df_links := map snd (filter (\<lambda>(i, _). i \<noteq> index) (enumerate 0 (df_links s)))\<rparr>"

datatype linkField = Title | Url

fun setLinkField :: "linkField \<Rightarrow> jsstring \<Rightarrow> RelatedLink \<Rightarrow> RelatedLink" where
  "setLinkField Title v l = l\<lparr>title := v\<rparr>"
| "setLinkField Url v l = l\<lparr>url := v, urlError := Some (validateUrl v)\<rparr>"

definition handleLinkChange :: "nat \<Rightarrow> linkField \<Rightarrow> jsstring \<Rightarrow> DocFooter \<Rightarrow> DocFooter" where
  "handleLinkChange index field v s =
     s\<lparr>df_links :=
         map (\<lambda>(i, l). if i = index then setLinkField field v l else l)
           (enumerate 0 (df_links s))\<rparr>"

definition handleSeeAlsoChange :: "linkField \<Rightarrow> jsstring \<Rightarrow> DocFooter \<Rightarrow> DocFooter" where
  "handleSeeAlsoChange field v s =
     s\<lparr>df_seeAlso :=
         Some (setLinkField field v
           (case df_seeAlso s of None \<Rightarrow> emptyLink | Some prev \<Rightarrow> prev))\<rparr>"

definition toggleSeeAlso :: "DocFooter \<Rightarrow> DocFooter" where
  "toggleSeeAlso s =
     (if \<not> df_showSeeAlso s
      then s\<lparr>df_showSeeAlso := True, df_seeAlso := Some emptyLink\<rparr>
      else s\<lparr>df_showSeeAlso := False, df_seeAlso := None\<rparr>)"

definition linkHasError :: "RelatedLink \<Rightarrow> bool" where
  "linkHasError l = (validateUrl (url l) \<noteq> [] \<or> title l = [])"

definition hasErrors_df :: "DocFooter \<Rightarrow> bool" where
  "hasErrors_df s =
     (list_ex linkHasError (df_links s) \<or>
      (df_showSeeAlso s \<and>
       (case df_seeAlso s of None \<Rightarrow> False | Some sa \<Rightarrow> linkHasError sa)))"

definition placeholder_df :: jsstring where
  "placeholder_df = lit ''// Please fix validation errors before generating the code''"

text \<open>
  \<^verbatim>\<open>JSON.stringify(...).replace(/"/g, "'").replace(/\s+/g, ' ')\<close>, as both the
  related links and the see-also link are rendered.
\<close>

definition singleQuoted :: "jsstring \<Rightarrow> jsstring" where
  "singleQuoted j = collapseWhitespace (replaceAll DQUOTE [SQUOTE] j)"

definition seeAlsoParts :: "DocFooter \<Rightarrow> jsstring list" where
  "seeAlsoParts s =
     (case df_seeAlso s of
        None \<Rightarrow> []
      | Some sa \<Rightarrow>
          if df_showSeeAlso s \<and> title sa \<noteq> [] \<and> url sa \<noteq> []
          then [lit ''seeAlso='' @ singleQuoted (stringifyLink (title sa, url sa))]
          else [])"

definition generateMarkdoc_df :: "DocFooter \<Rightarrow> jsstring" where
  "generateMarkdoc_df s =
     (if hasErrors_df s then placeholder_df
      else
        let relatedLinksStr =
              singleQuoted (stringifyLinks (map (\<lambda>l. (title l, url l)) (df_links s)));
            parts = [lit ''relatedLinks='' @ relatedLinksStr] @ seeAlsoParts s
        in lit ''{% docfooter '' @ join (lit '' '') parts @ lit '' /%}'')"

text \<open>
  What a handler asks of the browser: a call of
  \<^verbatim>\<open>navigator.clipboard.writeText\<close>, a \<^verbatim>\<open>setTimeout\<close> with its delay in
  milliseconds (the callback resets the \<^verbatim>\<open>copied\<close> indicator), and a
  \<^verbatim>\<open>console.error\<close>.
\<close>

datatype effect = ClipboardWriteText jsstring | SetTimeout nat | ConsoleError

text \<open>
  \<^verbatim>\<open>handleCopy\<close>: the argument \<open>ok\<close> says whether the browser resolves the
  promise of \<^verbatim>\<open>writeText\<close>; a rejection is caught and logged.
\<close>

definition handleCopy_df :: "bool \<Rightarrow> DocFooter \<Rightarrow> DocFooter \<times> effect list" where
  "handleCopy_df ok s =
     (if hasErrors_df s then (s, [])
      else if ok
        then (s\<lparr>df_copied := True\<rparr>,
              [ClipboardWriteText (generateMarkdoc_df s), SetTimeout 2000])
        else (s, [ClipboardWriteText (generateMarkdoc_df s), ConsoleError]))"

text \<open>
  The remove button of a link row carries \<^verbatim>\<open>disabled={links.length === 1}\<close>: a
  click reaches \<^verbatim>\<open>handleRemoveLink\<close> only when the list has another length.
\<close>

definition clickRemoveLink :: "nat \<Rightarrow> DocFooter \<Rightarrow> DocFooter" where
  "clickRemoveLink index s =
     (if length (df_links s) = 1 then s else handleRemoveLink index s)"

section \<open>ButtonListGenerator\<close>

record ButtonItem =
  label :: jsstring
  link :: jsstring
  item_id :: jsstring

record ButtonList =
  bl_items :: "ButtonItem list"
  bl_copied :: bool

definition init_bl :: ButtonList where
  "init_bl = \<lparr>bl_items = [\<lparr>label = [], link = [], item_id = lit ''1''\<rparr>],
              bl_copied = False\<rparr>"

definition addItem :: "ButtonList \<Rightarrow> ButtonList" where
  "addItem s =
     (let newId = toString (length (bl_items s) + 1)
      in s\<lparr>bl_items := bl_items s @ [\<lparr>label = [], link = [], item_id = newId\<rparr>]\<rparr>)"

definition removeItem :: "jsstring \<Rightarrow> ButtonList \<Rightarrow> ButtonList" where
  "removeItem i s =
     (if length (bl_items s) = 1 then s
      else s\<lparr>bl_items := filter (\<lambda>item. item_id item \<noteq> i) (bl_items s)\<rparr>)"

text \<open>\<^verbatim>\<open>keyof Omit<ButtonItem, 'id'>\<close>\<close>

datatype buttonField = Label | Link

fun setButtonField :: "buttonField \<Rightarrow> jsstring \<Rightarrow> ButtonItem \<Rightarrow> ButtonItem" where
  "setButtonField Label v item = item\<lparr>label := v\<rparr>"
| "setButtonField Link v item = item\<lparr>link := v\<rparr>"

definition updateItem :: "jsstring \<Rightarrow> buttonField \<Rightarrow> jsstring \<Rightarrow> ButtonList \<Rightarrow> ButtonList" where
  "updateItem i field v s =
     s\<lparr>bl_items :=
         map (\<lambda>item. if item_id item = i then setButtonField field v item else item)
           (bl_items s)\<rparr>"

definition placeholder_bl :: jsstring where
  "placeholder_bl = lit ''// Please fill in all fields for each button''"

definition buttonItemStr :: "ButtonItem \<Rightarrow> jsstring" where
  \<open>buttonItemStr item =
     lit ''{ label: "'' @ label item @ lit ''", link: "'' @ link item @ lit ''" }''\<close>

definition generateMarkdoc_bl :: "ButtonList \<Rightarrow> jsstring" where
  "generateMarkdoc_bl s =
     (if list_ex (\<lambda>item. label item = [] \<or> link item = []) (bl_items s)
      then placeholder_bl
      else
        let itemsStr = join (lit '', '') (map buttonItemStr (bl_items s))
        in lit ''{% buttonlist items=[ '' @ itemsStr @ lit '' ] /%}'')"

definition handleCopy_bl :: "bool \<Rightarrow> ButtonList \<Rightarrow> ButtonList \<times> effect list" where
  "handleCopy_bl ok s =
     (if list_ex (\<lambda>item. label item = [] \<or> link item = []) (bl_items s) then (s, [])
      else if ok
        then (s\<lparr>bl_copied := True\<rparr>,
              [ClipboardWriteText (generateMarkdoc_bl s), SetTimeout 2000])
        else (s, [ClipboardWriteText (generateMarkdoc_bl s), ConsoleError]))"

definition hasErrors_bl :: "ButtonList \<Rightarrow> bool" where
  "hasErrors_bl s = list_ex (\<lambda>item. label item = [] \<or> link item = []) (bl_items s)"

section \<open>RequestResponseGenerator\<close>

text \<open>
  The repository holds two versions of this component with the same
  \<^verbatim>\<open>RequestCode\<close> interface: one that also keeps Prism-highlighted markup of the
  code blocks (\<^verbatim>\<open>highlightedCode\<close>, a dictionary keyed by request id), and a plain
  one. The highlighting itself is done by the Prism library inside an effect that
  only writes \<^verbatim>\<open>highlightedCode\<close>; no function below reads that dictionary, and the
  effect is not part of the model.
\<close>

record RequestCode =
  language :: jsstring
  code :: jsstring
  req_id :: jsstring

record RequestResponse =
  rr_method :: jsstring
  rr_requests :: "RequestCode list"
  rr_response :: jsstring
  rr_copied :: bool
  rr_highlightedCode :: "jsstring \<rightharpoonup> jsstring"

definition init_rr :: RequestResponse where
  "init_rr = \<lparr>rr_method = lit ''GET'',
              rr_requests = [\<lparr>language = lit ''cURL'', code = [], req_id = lit ''1''\<rparr>],
              rr_response = [], rr_copied = False, rr_highlightedCode = Map.empty\<rparr>"

definition stringifyCode :: "jsstring \<Rightarrow> jsstring" where
  "stringifyCode c =
     collapseWhitespace
       (replaceAll LF [BACKSLASH, 0x6E]
         (replaceAll SQUOTE [BACKSLASH, SQUOTE] (trim c)))"

definition addRequestBlock :: "RequestResponse \<Rightarrow> RequestResponse" where
  "addRequestBlock s =
     (let newId = toString (length (rr_requests s) + 1)
      in s\<lparr>rr_requests :=
             rr_requests s @ [\<lparr>language = lit ''cURL'', code = [], req_id = newId\<rparr>]\<rparr>)"

definition removeRequestBlock :: "jsstring \<Rightarrow> RequestResponse \<Rightarrow> RequestResponse" where
  "removeRequestBlock i s =
     (if length (rr_requests s) = 1 then s
      else s\<lparr>rr_requests := filter (\<lambda>req. req_id req \<noteq> i) (rr_requests s),
             rr_highlightedCode := (rr_highlightedCode s)(i := None)\<rparr>)"

text \<open>\<^verbatim>\<open>keyof RequestCode\<close>\<close>

datatype requestField = Language | Code | ReqId

fun setRequestField :: "requestField \<Rightarrow> jsstring \<Rightarrow> RequestCode \<Rightarrow> RequestCode" where
  "setRequestField Language v req = req\<lparr>language := v\<rparr>"
| "setRequestField Code v req = req\<lparr>code := v\<rparr>"
| "setRequestField ReqId v req = req\<lparr>req_id := v\<rparr>"

definition updateRequest ::
  "jsstring \<Rightarrow> requestField \<Rightarrow> jsstring \<Rightarrow> RequestResponse \<Rightarrow> RequestResponse" where
  "updateRequest i field v s =
     s\<lparr>rr_requests :=
         map (\<lambda>req. if req_id req = i then setRequestField field v req else req)
           (rr_requests s)\<rparr>"

definition placeholder_rr :: jsstring where
  "placeholder_rr = lit ''// Please fill in all request code blocks and response field''"

definition requestStr :: "RequestCode \<Rightarrow> jsstring" where
  \<open>requestStr req =
     lit ''{language: "'' @ language req @ lit ''", code: "'' @
     stringifyCode (code req) @ lit ''"}''\<close>

definition generateMarkdoc_rr :: "RequestResponse \<Rightarrow> jsstring" where
  \<open>generateMarkdoc_rr s =
     (if list_ex (\<lambda>req. code req = []) (rr_requests s) \<or> rr_response s = []
      then placeholder_rr
      else
        let requestsStr = join (lit '','') (map requestStr (rr_requests s))
        in lit ''{% requestresponse method="'' @ rr_method s @ lit ''" requests=['' @
           requestsStr @ lit ''] response="'' @ stringifyCode (rr_response s) @
           lit ''" /%}'')\<close>

definition handleCopy_rr :: "bool \<Rightarrow> RequestResponse \<Rightarrow> RequestResponse \<times> effect list" where
  "handleCopy_rr ok s =
     (if list_ex (\<lambda>req. code req = []) (rr_requests s) \<or> rr_response s = [] then (s, [])
      else if ok
        then (s\<lparr>rr_copied := True\<rparr>,
              [ClipboardWriteText (generateMarkdoc_rr s), SetTimeout 2000])
        else (s, [ClipboardWriteText (generateMarkdoc_rr s), ConsoleError]))"

definition hasErrors_rr :: "RequestResponse \<Rightarrow> bool" where
  "hasErrors_rr s = (list_ex (\<lambda>req. code req = []) (rr_requests s) \<or> rr_response s = [])"

subsection \<open>The plain version\<close>

record RequestResponsePlain =
  rp_method :: jsstring
  rp_requests :: "RequestCode list"
  rp_response :: jsstring
  rp_copied :: bool

definition init_plain :: RequestResponsePlain where
  "init_plain = \<lparr>rp_method = lit ''GET'',
                 rp_requests = [\<lparr>language = lit ''cURL'', code = [], req_id = lit ''1''\<rparr>],
                 rp_response = [], rp_copied = False\<rparr>"

definition stringifyCode_plain :: "jsstring \<Rightarrow> jsstring" where
  "stringifyCode_plain c =
     collapseWhitespace
       (replaceAll LF [BACKSLASH, 0x6E]
         (replaceAll SQUOTE [BACKSLASH, SQUOTE] (trim c)))"

definition addRequestBlock_plain :: "RequestResponsePlain \<Rightarrow> RequestResponsePlain" where
  "addRequestBlock_plain s =
     (let newId = toString (length (rp_requests s) + 1)
      in s\<lparr>rp_requests :=
             rp_requests s @ [\<lparr>language = lit ''cURL'', code = [], req_id = newId\<rparr>]\<rparr>)"

definition removeRequestBlock_plain ::
  "jsstring \<Rightarrow> RequestResponsePlain \<Rightarrow> RequestResponsePlain" where
  "removeRequestBlock_plain i s =
     (if length (rp_requests s) = 1 then s
      else s\<lparr>rp_requests := filter (\<lambda>req. req_id req \<noteq> i) (rp_requests s)\<rparr>)"

definition updateRequest_plain ::
  "jsstring \<Rightarrow> requestField \<Rightarrow> jsstring \<Rightarrow> RequestResponsePlain \<Rightarrow> RequestResponsePlain" where
  "updateRequest_plain i field v s =
     s\<lparr>rp_requests :=
         map (\<lambda>req. if req_id req = i then setRequestField field v req else req)
           (rp_requests s)\<rparr>"

definition requestStr_plain :: "RequestCode \<Rightarrow> jsstring" where
  \<open>requestStr_plain req =
     lit ''{language: "'' @ language req @ lit ''", code: "'' @
     stringifyCode_plain (code req) @ lit ''"}''\<close>

definition generateMarkdoc_plain :: "RequestResponsePlain \<Rightarrow> jsstring" where
  \<open>generateMarkdoc_plain s =
     (if list_ex (\<lambda>req. code req = []) (rp_requests s) \<or> rp_response s = []
      then placeholder_rr
      else
        let requestsStr = join (lit '','') (map requestStr_plain (rp_requests s))
        in lit ''{% requestresponse method="'' @ rp_method s @ lit ''" requests=['' @
           requestsStr @ lit ''] response="'' @ stringifyCode_plain (rp_response s) @
           lit ''" /%}'')\<close>

definition handleCopy_plain ::
  "bool \<Rightarrow> RequestResponsePlain \<Rightarrow> RequestResponsePlain \<times> effect list" where
  "handleCopy_plain ok s =
     (if list_ex (\<lambda>req. code req = []) (rp_requests s) \<or> rp_response s = [] then (s, [])
      else if ok
        then (s\<lparr>rp_copied := True\<rparr>,
              [ClipboardWriteText (generateMarkdoc_plain s), SetTimeout 2000])
        else (s, [ClipboardWriteText (generateMarkdoc_plain s), ConsoleError]))"

definition hasErrors_plain :: "RequestResponsePlain \<Rightarrow> bool" where
  "hasErrors_plain s = (list_ex (\<lambda>req. code req = []) (rp_requests s) \<or> rp_response s = [])"

section \<open>User actions on the DocFooterGenerator\<close>

text \<open>
  What the rendered form lets the user do, each action with the handler it is wired
  to. The see-also inputs exist only while \<^verbatim>\<open>showSeeAlso\<close> holds, the copy button
  carries \<^verbatim>\<open>disabled={hasErrors()}\<close>, and \<open>CopiedTimeout\<close> is the timer callback
  that resets the indicator.
\<close>

datatype df_action =
  AddLink | RemoveLink nat | LinkChange nat linkField jsstring
  | SeeAlsoChange linkField jsstring | ToggleSeeAlso | Copy bool | CopiedTimeout

fun df_step :: "DocFooter \<Rightarrow> df_action \<Rightarrow> DocFooter" where
  "df_step s AddLink = handleAddLink s"
| "df_step s (RemoveLink i) = clickRemoveLink i s"
| "df_step s (LinkChange i field v) = handleLinkChange i field v s"
| "df_step s (SeeAlsoChange field v) =
     (if df_showSeeAlso s then handleSeeAlsoChange field v s else s)"
| "df_step s ToggleSeeAlso = toggleSeeAlso s"
| "df_step s (Copy ok) = (if hasErrors_df s then s else fst (handleCopy_df ok s))"
| "df_step s CopiedTimeout = s\<lparr>df_copied := False\<rparr>"

definition run_df :: "df_action list \<Rightarrow> DocFooter" where
  "run_df as = foldl df_step init_df as"

section \<open>Observations used in the statements\<close>

text \<open>The texts handed to \<^verbatim>\<open>writeText\<close> among the effects of a handler.\<close>

fun clipboardWrites :: "effect list \<Rightarrow> jsstring list" where
  "clipboardWrites [] = []"
| "clipboardWrites (ClipboardWriteText t # es) = t # clipboardWrites es"
| "clipboardWrites (SetTimeout n # es) = clipboardWrites es"
| "clipboardWrites (ConsoleError # es) = clipboardWrites es"

text \<open>
  \<open>everyEscaped q s\<close>: every occurrence of the character \<open>q\<close> in \<open>s\<close> stands
  immediately after a backslash. \<open>escapedAfter\<close> carries the preceding character.
\<close>

fun escapedAfter :: "jschar \<Rightarrow> jschar option \<Rightarrow> jsstring \<Rightarrow> bool" where
  "escapedAfter q prev [] = True"
| "escapedAfter q prev (c # cs) =
     ((if c = q then prev = Some BACKSLASH else True) \<and> escapedAfter q (Some c) cs)"

definition everyEscaped :: "jschar \<Rightarrow> jsstring \<Rightarrow> bool" where
  "everyEscaped q s = escapedAfter q None s"

text \<open>
  \<open>whitespaceCollapsed s\<close>: every whitespace character of \<open>s\<close> is a space, and no
  two whitespace characters are adjacent.
\<close>

fun collapsedAfter :: "bool \<Rightarrow> jsstring \<Rightarrow> bool" where
  "collapsedAfter prevWS [] = True"
| "collapsedAfter prevWS (c # cs) =
     ((if isWhiteSpace c then c = SPACE \<and> \<not> prevWS else True)
      \<and> collapsedAfter (isWhiteSpace c) cs)"

definition whitespaceCollapsed :: "jsstring \<Rightarrow> bool" where
  "whitespaceCollapsed s = collapsedAfter False s"

text \<open>
  The escaping read as one pass from left to right over a value: backslash-quote
  for a single quote, backslash-n for a line feed, one space for a maximal run of
  other whitespace, every other character as it is. It is stated independently of
  \<open>stringifyCode\<close>, which works by three global replacements one after the other,
  and is compared with it below.
\<close>

function escapeLeftToRight :: "jsstring \<Rightarrow> jsstring" where
  "escapeLeftToRight [] = []"
| "escapeLeftToRight (c # cs) =
     (if c = SQUOTE then BACKSLASH # SQUOTE # escapeLeftToRight cs
      else if c = LF then BACKSLASH # 0x6E # escapeLeftToRight cs
      else if isWhiteSpace c
        then SPACE # escapeLeftToRight (dropWhile (\<lambda>x. isWhiteSpace x \<and> x \<noteq> LF) cs)
      else c # escapeLeftToRight cs)"
  by pat_completeness auto
termination
  by (relation "measure length") (auto simp: less_Suc_eq_le length_dropWhile_le)

text \<open>Filled-in forms used as concrete inputs.\<close>

definition guide_df :: DocFooter where
  "guide_df =
     \<lparr>df_links = [\<lparr>title = lit ''Guide'', url = lit ''/docs/guide'', urlError = Some []\<rparr>],
      df_seeAlso = None, df_copied = False, df_showSeeAlso = False\<rparr>"

definition home_bl :: ButtonList where
  "home_bl =
     \<lparr>bl_items = [\<lparr>label = lit ''Home'', link = lit ''/docs'', item_id = lit ''1''\<rparr>],
      bl_copied = False\<rparr>"

definition curl_rr :: RequestResponse where
  "curl_rr =
     \<lparr>rr_method = lit ''GET'',
      rr_requests = [\<lparr>language = lit ''cURL'', code = lit ''curl  -d 'x' -v'',
                      req_id = lit ''1''\<rparr>],
      rr_response = lit ''ok'', rr_copied = False, rr_highlightedCode = Map.empty\<rparr>"

definition curl_plain :: RequestResponsePlain where
  "curl_plain =
     \<lparr>rp_method = lit ''GET'',
      rp_requests = [\<lparr>language = lit ''cURL'', code = lit ''curl  -d 'x' -v'',
                      req_id = lit ''1''\<rparr>],
      rp_response = lit ''ok'', rp_copied = False\<rparr>"

text \<open>
  The same forms with everything changed that is not typed by the user: the
  \<^verbatim>\<open>copied\<close> indicator, the stored \<^verbatim>\<open>urlError\<close>, the entry ids and the highlighted
  markup.
\<close>

definition guide_df_copied :: DocFooter where
  "guide_df_copied =
     \<lparr>df_links = [\<lparr>title = lit ''Guide'', url = lit ''/docs/guide'', urlError = None\<rparr>],
      df_seeAlso = None, df_copied = True, df_showSeeAlso = False\<rparr>"

definition home_bl_copied :: ButtonList where
  "home_bl_copied =
     \<lparr>bl_items = [\<lparr>label = lit ''Home'', link = lit ''/docs'', item_id = lit ''7''\<rparr>],
      bl_copied = True\<rparr>"

definition curl_rr_copied :: RequestResponse where
  "curl_rr_copied =
     \<lparr>rr_method = lit ''GET'',
      rr_requests = [\<lparr>language = lit ''cURL'', code = lit ''curl  -d 'x' -v'',
                      req_id = lit ''7''\<rparr>],
      rr_response = lit ''ok'', rr_copied = True,
      rr_highlightedCode = [lit ''7'' \<mapsto> lit ''<span>curl</span>'']\<rparr>"

definition curl_plain_copied :: RequestResponsePlain where
  "curl_plain_copied =
     \<lparr>rp_method = lit ''GET'',
      rp_requests = [\<lparr>language = lit ''cURL'', code = lit ''curl  -d 'x' -v'',
                      req_id = lit ''7''\<rparr>],
      rp_response = lit ''ok'', rp_copied = True\<rparr>"

section \<open>Evaluation rules and auxiliary facts\<close>

lemmas df_eval = generateMarkdoc_df_def hasErrors_df_def linkHasError_def validateUrl_def
  startsWith_def lit_def seeAlsoParts_def singleQuoted_def stringifyLinks_def stringifyLink_def
  quoteJSONString_def quoteUnit_def isLeadingSurrogate_def isTrailingSurrogate_def
  replaceAll_def isWhiteSpace_def DQUOTE_def SQUOTE_def

lemmas bl_eval = init_bl_def addItem_def removeItem_def updateItem_def lit_def
  toString.simps Let_def

lemmas rr_eval = init_rr_def addRequestBlock_def removeRequestBlock_def updateRequest_def
  lit_def toString.simps Let_def

lemmas rp_eval = init_plain_def addRequestBlock_plain_def removeRequestBlock_plain_def
  updateRequest_plain_def lit_def toString.simps Let_def

lemmas str_eval = stringifyCode_def stringifyCode_plain_def trim_def replaceAll_def
  isWhiteSpace_def lit_def BACKSLASH_def SQUOTE_def DQUOTE_def LF_def SPACE_def

lemma startsWith_append: "startsWith (p @ s) p"
  by (simp add: startsWith_def)

lemma lit_docs_nonempty: "lit ''/docs'' \<noteq> []"
  by (simp add: lit_def)

lemma list_ex_member: "x \<in> set xs \<Longrightarrow> P x \<Longrightarrow> list_ex P xs"
  by (auto simp: list_ex_iff)

lemma replaceAll_Nil: "replaceAll c r [] = []"
  by (simp add: replaceAll_def)

lemma replaceAll_Cons:
  "replaceAll c r (x # xs) = (if x = c then r else [x]) @ replaceAll c r xs"
  by (simp add: replaceAll_def)

lemma space_is_whitespace: "isWhiteSpace SPACE"
  by (simp add: isWhiteSpace_def SPACE_def)

lemma backslash_not_space: "\<not> isWhiteSpace BACKSLASH"
  by (simp add: isWhiteSpace_def BACKSLASH_def)

subsection \<open>What \<open>stringifyCode\<close> guarantees\<close>

text \<open>Only whether the preceding character is a backslash matters.\<close>

lemma escapedAfter_prev:
  "(p = Some BACKSLASH) = (p' = Some BACKSLASH) \<Longrightarrow> escapedAfter q p s = escapedAfter q p' s"
  by (cases s) auto

lemma escapedAfter_replace_quote:
  "escapedAfter SQUOTE prev (replaceAll SQUOTE [BACKSLASH, SQUOTE] s)"
proof (induction s arbitrary: prev)
  case Nil
  show ?case by (simp add: replaceAll_Nil)
next
  case (Cons x xs)
  show ?case
  proof (cases "x = SQUOTE")
    case True
    have "escapedAfter SQUOTE (Some SQUOTE) (replaceAll SQUOTE [BACKSLASH, SQUOTE] xs)"
      by (rule Cons.IH)
    then show ?thesis
      by (simp add: replaceAll_Cons True) (simp add: BACKSLASH_def SQUOTE_def)
  next
    case False
    have "escapedAfter SQUOTE (Some x) (replaceAll SQUOTE [BACKSLASH, SQUOTE] xs)"
      by (rule Cons.IH)
    then show ?thesis
      by (simp add: replaceAll_Cons False)
  qed
qed

lemma escapedAfter_replace_lf:
  "escapedAfter SQUOTE prev s \<Longrightarrow> escapedAfter SQUOTE prev (replaceAll LF [BACKSLASH, 0x6E] s)"
proof (induction s arbitrary: prev)
  case Nil
  show ?case by (simp add: replaceAll_Nil)
next
  case (Cons x xs)
  show ?case
  proof (cases "x = LF")
    case True
    from Cons.prems have "escapedAfter SQUOTE (Some LF) xs"
      by (simp add: True)
    moreover have "escapedAfter SQUOTE (Some LF) xs = escapedAfter SQUOTE (Some 0x6E) xs"
      by (rule escapedAfter_prev) (simp add: LF_def BACKSLASH_def)
    ultimately have "escapedAfter SQUOTE (Some 0x6E) xs"
      by simp
    then have "escapedAfter SQUOTE (Some 0x6E) (replaceAll LF [BACKSLASH, 0x6E] xs)"
      by (rule Cons.IH)
    then show ?thesis
      by (simp add: replaceAll_Cons True) (simp add: BACKSLASH_def SQUOTE_def LF_def)
  next
    case False
    from Cons.prems have "escapedAfter SQUOTE (Some x) xs" by simp
    then have "escapedAfter SQUOTE (Some x) (replaceAll LF [BACKSLASH, 0x6E] xs)"
      by (rule Cons.IH)
    with Cons.prems show ?thesis
      by (simp add: replaceAll_Cons False)
  qed
qed

lemma escapedAfter_dropWhile:
  "isWhiteSpace w \<Longrightarrow> escapedAfter q (Some w) cs \<Longrightarrow>
   escapedAfter q (Some SPACE) (dropWhile isWhiteSpace cs)"
proof (induction cs arbitrary: w)
  case Nil
  show ?case by simp
next
  case (Cons x xs)
  show ?case
  proof (cases "isWhiteSpace x")
    case True
    from Cons.prems have "escapedAfter q (Some x) xs" by simp
    with True show ?thesis by (simp add: Cons.IH)
  next
    case False
    have "w \<noteq> BACKSLASH" using Cons.prems(1) backslash_not_space by auto
    then have "escapedAfter q (Some SPACE) (x # xs) = escapedAfter q (Some w) (x # xs)"
      by (intro escapedAfter_prev) (simp add: SPACE_def BACKSLASH_def)
    with Cons.prems False show ?thesis by simp
  qed
qed

lemma escapedAfter_collapse:
  "escapedAfter SQUOTE prev s \<Longrightarrow> escapedAfter SQUOTE prev (collapseWhitespace s)"
proof (induction s arbitrary: prev rule: collapseWhitespace.induct)
  case 1
  show ?case by simp
next
  case (2 c cs)
  show ?case
  proof (cases "isWhiteSpace c")
    case True
    from "2.prems" have "escapedAfter SQUOTE (Some c) cs" by simp
    then have "escapedAfter SQUOTE (Some SPACE) (dropWhile isWhiteSpace cs)"
      using True by (rule escapedAfter_dropWhile [rotated])
    then have "escapedAfter SQUOTE (Some SPACE) (collapseWhitespace (dropWhile isWhiteSpace cs))"
      using True by (simp add: "2.IH"(1))
    then show ?thesis
      using True by (simp add: SPACE_def SQUOTE_def)
  next
    case False
    from "2.prems" have "escapedAfter SQUOTE (Some c) cs" by simp
    then have "escapedAfter SQUOTE (Some c) (collapseWhitespace cs)"
      using False by (simp add: "2.IH"(2))
    with "2.prems" False show ?thesis by simp
  qed
qed

lemma collapsedAfter_collapse:
  "(b \<Longrightarrow> s = [] \<or> \<not> isWhiteSpace (hd s)) \<Longrightarrow> collapsedAfter b (collapseWhitespace s)"
proof (induction s arbitrary: b rule: collapseWhitespace.induct)
  case 1
  show ?case by simp
next
  case (2 c cs)
  show ?case
  proof (cases "isWhiteSpace c")
    case True
    have nb: "\<not> b" using "2.prems" True by auto
    have "dropWhile isWhiteSpace cs = [] \<or> \<not> isWhiteSpace (hd (dropWhile isWhiteSpace cs))"
      by (cases "dropWhile isWhiteSpace cs = []") (simp_all add: hd_dropWhile)
    then have "collapsedAfter True (collapseWhitespace (dropWhile isWhiteSpace cs))"
      using True by (intro "2.IH"(1))
    then show ?thesis
      using True nb by (simp add: space_is_whitespace)
  next
    case False
    have "collapsedAfter False (collapseWhitespace cs)"
      using False by (intro "2.IH"(2)) auto
    then show ?thesis using False by simp
  qed
qed

lemma set_collapse:
  "x \<in> set (collapseWhitespace s) \<Longrightarrow> x = SPACE \<or> \<not> isWhiteSpace x"
proof (induction s rule: collapseWhitespace.induct)
  case 1
  then show ?case by simp
next
  case (2 c cs)
  then show ?case by (auto split: if_splits)
qed

lemma stringifyCode_escaped: "everyEscaped SQUOTE (stringifyCode c)"
  unfolding everyEscaped_def stringifyCode_def
  by (intro escapedAfter_collapse escapedAfter_replace_lf escapedAfter_replace_quote)

lemma stringifyCode_collapsed: "whitespaceCollapsed (stringifyCode c)"
  unfolding whitespaceCollapsed_def stringifyCode_def
  by (rule collapsedAfter_collapse) simp

lemma stringifyCode_no_lf: "LF \<notin> set (stringifyCode c)"
proof
  assume "LF \<in> set (stringifyCode c)"
  then have "LF = SPACE \<or> \<not> isWhiteSpace LF"
    unfolding stringifyCode_def by (rule set_collapse)
  then show False by (simp add: LF_def SPACE_def isWhiteSpace_def)
qed

subsection \<open>The three replacements as one pass\<close>

lemma replaceAll_append: "replaceAll c r (a @ b) = replaceAll c r a @ replaceAll c r b"
  by (simp add: replaceAll_def)

lemma quote_facts:
  "SQUOTE \<noteq> LF" "BACKSLASH \<noteq> LF" "BACKSLASH \<noteq> SQUOTE" "\<not> isWhiteSpace SQUOTE"
  "\<not> isWhiteSpace BACKSLASH" "isWhiteSpace LF" "(0x6E :: jschar) \<noteq> LF"
  "\<not> isWhiteSpace (0x6E :: jschar)"
  by (simp_all add: SQUOTE_def LF_def BACKSLASH_def isWhiteSpace_def)

lemma escape_steps_Nil:
  "replaceAll LF [BACKSLASH, 0x6E] (replaceAll SQUOTE [BACKSLASH, SQUOTE] []) = []"
  by (simp add: replaceAll_Nil)

lemma escape_steps_Cons:
  "replaceAll LF [BACKSLASH, 0x6E] (replaceAll SQUOTE [BACKSLASH, SQUOTE] (y # ys)) =
     (if y = SQUOTE then [BACKSLASH, SQUOTE]
      else if y = LF then [BACKSLASH, 0x6E] else [y]) @
     replaceAll LF [BACKSLASH, 0x6E] (replaceAll SQUOTE [BACKSLASH, SQUOTE] ys)"
  by (simp add: replaceAll_Cons replaceAll_append replaceAll_Nil quote_facts)

text \<open>
  A whitespace run of the input ends at a line feed, because the line feed has
  become backslash-n by the time the runs are collapsed.
\<close>

lemma dropWhile_escape_steps:
  "dropWhile isWhiteSpace
     (replaceAll LF [BACKSLASH, 0x6E] (replaceAll SQUOTE [BACKSLASH, SQUOTE] xs)) =
   replaceAll LF [BACKSLASH, 0x6E] (replaceAll SQUOTE [BACKSLASH, SQUOTE]
     (dropWhile (\<lambda>x. isWhiteSpace x \<and> x \<noteq> LF) xs))"
proof (induction xs)
  case Nil
  show ?case by (simp add: escape_steps_Nil)
next
  case (Cons y ys)
  show ?case
    using Cons.IH by (simp add: escape_steps_Cons quote_facts)
qed

lemma collapse_escape_steps:
  "collapseWhitespace
     (replaceAll LF [BACKSLASH, 0x6E] (replaceAll SQUOTE [BACKSLASH, SQUOTE] s)) =
   escapeLeftToRight s"
proof (induction s rule: escapeLeftToRight.induct)
  case 1
  show ?case by (simp add: escape_steps_Nil)
next
  case (2 c cs)
  then show ?case
    by (simp add: escape_steps_Cons quote_facts dropWhile_escape_steps)
qed

lemma stringifyCode_left_to_right: "stringifyCode c = escapeLeftToRight (trim c)"
  by (simp add: stringifyCode_def collapse_escape_steps)

lemma count_list_dropWhile:
  "\<not> P q \<Longrightarrow> count_list (dropWhile P xs) q = count_list xs q"
  by (induction xs) auto

lemma count_escapeLeftToRight:
  "count_list (escapeLeftToRight s) SQUOTE = count_list s SQUOTE"
proof (induction s rule: escapeLeftToRight.induct)
  case 1
  show ?case by simp
next
  case (2 c cs)
  then show ?case
    by (simp add: quote_facts count_list_dropWhile)
      (auto simp: SQUOTE_def BACKSLASH_def SPACE_def isWhiteSpace_def)
qed

lemma count_trim: "\<not> isWhiteSpace q \<Longrightarrow> count_list (trim s) q = count_list s q"
  by (simp add: trim_def count_list_dropWhile)

lemma stringifyCode_keeps_quotes:
  "count_list (stringifyCode c) SQUOTE = count_list c SQUOTE"
  by (simp add: stringifyCode_left_to_right count_escapeLeftToRight count_trim quote_facts)

subsection \<open>Lists that agree on what is read from their entries\<close>

lemma map_determined:
  assumes "\<And>x y. h x = h y \<Longrightarrow> f x = f y" and "map h xs = map h ys"
  shows "map f xs = map f ys"
  using assms(2)
proof (induction xs arbitrary: ys)
  case Nil
  then show ?case by simp
next
  case (Cons x xs)
  then obtain y ys' where ys: "ys = y # ys'" and h: "h x = h y" and t: "map h xs = map h ys'"
    by (cases ys) auto
  from h have "f x = f y" by (rule assms(1))
  moreover from t have "map f xs = map f ys'" by (rule Cons.IH)
  ultimately show ?case by (simp add: ys)
qed

lemma list_ex_determined:
  assumes "\<And>x y. h x = h y \<Longrightarrow> P x = P y" and "map h xs = map h ys"
  shows "list_ex P xs = list_ex P ys"
proof -
  have "map P xs = map P ys" using assms by (rule map_determined)
  then have "set (map P xs) = set (map P ys)" by simp
  then show ?thesis by (auto simp: list_ex_iff image_iff)
qed

subsection \<open>The related-links list never becomes empty\<close>

lemma enumerate_eq_Nil: "(enumerate n xs = []) = (xs = [])"
  by (cases xs) simp_all

lemma length_remove_index:
  "length (filter (\<lambda>(i, _). i \<noteq> index) (enumerate n xs)) =
     length xs - (if n \<le> index \<and> index < n + length xs then 1 else 0)"
  by (induction xs arbitrary: n) auto

lemma df_step_nonempty: "df_links s \<noteq> [] \<Longrightarrow> df_links (df_step s a) \<noteq> []"
proof (cases a)
  case (RemoveLink i)
  assume l: "df_links s \<noteq> []"
  show ?thesis
  proof (cases "length (df_links s) = 1")
    case True
    with l show ?thesis by (simp add: RemoveLink clickRemoveLink_def)
  next
    case False
    from l have "0 < length (df_links s)" by simp
    with False have "2 \<le> length (df_links s)" by arith
    then have "0 < length (filter (\<lambda>(k, _). k \<noteq> i) (enumerate 0 (df_links s)))"
      unfolding length_remove_index by (auto split: if_splits)
    with l show ?thesis
      by (simp add: RemoveLink clickRemoveLink_def handleRemoveLink_def)
  qed
qed (simp_all add: handleAddLink_def handleLinkChange_def handleSeeAlsoChange_def
      toggleSeeAlso_def handleCopy_df_def enumerate_eq_Nil)

lemma foldl_df_step_nonempty:
  "df_links s \<noteq> [] \<Longrightarrow> df_links (foldl df_step s as) \<noteq> []"
  by (induction as arbitrary: s) (simp_all add: df_step_nonempty)

lemma run_df_nonempty: "df_links (run_df as) \<noteq> []"
  unfolding run_df_def by (rule foldl_df_step_nonempty) (simp add: init_df_def)

section \<open>The claims\<close>

subsection \<open>C1: the docfooter example\<close>

text \<open>
  C1, as amended. \<^verbatim>\<open>JSON.stringify\<close> is called without an indent argument, so it
  puts no whitespace between its tokens, and the two replacements that follow only
  turn double quotes into single quotes and collapse whitespace that is already
  there. The single Link Entry with title \<^verbatim>\<open>Guide\<close> and url \<^verbatim>\<open>/docs/guide\<close>, with
  no see-also link, serializes to
  \<^verbatim>\<open>{% docfooter relatedLinks=[{'title':'Guide','url':'/docs/guide'}] /%}\<close>:
  the wire format of the example without any space inside the braces, after the
  colons or after the comma. The stored \<^verbatim>\<open>urlError\<close> and the \<^verbatim>\<open>copied\<close> indicator
  do not matter.
\<close>

theorem docfooter_guide_example:
  "generateMarkdoc_df
     \<lparr>df_links = [\<lparr>title = lit ''Guide'', url = lit ''/docs/guide'', urlError = e\<rparr>],
      df_seeAlso = None, df_copied = c, df_showSeeAlso = False\<rparr>
   = lit ''{% docfooter relatedLinks=[{'title':'Guide','url':'/docs/guide'}] /%}''"
  by (simp add: df_eval)

theorem docfooter_guide_example_witness:
  "generateMarkdoc_df
     \<lparr>df_links = [\<lparr>title = lit ''Guide'', url = lit ''/docs/guide'', urlError = Some []\<rparr>],
      df_seeAlso = None, df_copied = False, df_showSeeAlso = False\<rparr>
   = lit ''{% docfooter relatedLinks=[{'title':'Guide','url':'/docs/guide'}] /%}''"
  using docfooter_guide_example [of "Some []" False] by simp

text \<open>
  C1 as stated fails: the output for that entry is not the string of the example,
  which has a space after each opening brace, colon and comma and before the closing
  brace.
\<close>

theorem docfooter_guide_spacing_counterexample:
  "generateMarkdoc_df
     \<lparr>df_links = [\<lparr>title = lit ''Guide'', url = lit ''/docs/guide'', urlError = Some []\<rparr>],
      df_seeAlso = None, df_copied = False, df_showSeeAlso = False\<rparr>
   \<noteq> lit ''{% docfooter relatedLinks=[{ 'title': 'Guide', 'url': '/docs/guide' }] /%}''"
  by (simp add: df_eval)

subsection \<open>C2: escaping of field values\<close>

text \<open>
  C2, as amended. The request/response serializer passes every code value and the
  response through \<open>stringifyCode\<close> before it interpolates them. \<open>stringifyCode\<close>
  first strips leading and trailing whitespace, line feeds included; then, reading
  the rest from left to right, it writes backslash-quote for every single quote,
  backslash-n for every line feed, one space for every maximal run of other
  whitespace, and every other character as it is. So the result has as many single
  quotes as the value, each of them right after a backslash, it holds no line feed,
  and each of its whitespace runs is one space. The button-list serializer
  interpolates label and link as they are: it has no escaping step.
\<close>

theorem escaping_of_values:
  \<open>stringifyCode c = escapeLeftToRight (trim c)
   \<and> count_list (stringifyCode c) SQUOTE = count_list c SQUOTE
   \<and> everyEscaped SQUOTE (stringifyCode c) \<and> LF \<notin> set (stringifyCode c)
   \<and> whitespaceCollapsed (stringifyCode c)
   \<and> (\<not> hasErrors_rr r \<longrightarrow>
        generateMarkdoc_rr r =
          lit ''{% requestresponse method="'' @ rr_method r @ lit ''" requests=['' @
          join (lit '','')
            (map (\<lambda>req. lit ''{language: "'' @ language req @ lit ''", code: "'' @
                        stringifyCode (code req) @ lit ''"}'') (rr_requests r)) @
          lit ''] response="'' @ stringifyCode (rr_response r) @ lit ''" /%}'')
   \<and> (\<not> hasErrors_bl b \<longrightarrow>
        generateMarkdoc_bl b =
          lit ''{% buttonlist items=[ '' @
          join (lit '', '')
            (map (\<lambda>item. lit ''{ label: "'' @ label item @ lit ''", link: "'' @
                         link item @ lit ''" }'') (bl_items b)) @
          lit '' ] /%}'')\<close>
proof (intro conjI impI)
  show "stringifyCode c = escapeLeftToRight (trim c)" by (rule stringifyCode_left_to_right)
  show "count_list (stringifyCode c) SQUOTE = count_list c SQUOTE"
    by (rule stringifyCode_keeps_quotes)
  show "everyEscaped SQUOTE (stringifyCode c)" by (rule stringifyCode_escaped)
  show "LF \<notin> set (stringifyCode c)" by (rule stringifyCode_no_lf)
  show "whitespaceCollapsed (stringifyCode c)" by (rule stringifyCode_collapsed)
next
  have q: \<open>requestStr = (\<lambda>req. lit ''{language: "'' @ language req @ lit ''", code: "'' @
                        stringifyCode (code req) @ lit ''"}'')\<close>
    by (rule ext) (simp add: requestStr_def)
  assume "\<not> hasErrors_rr r"
  then show \<open>generateMarkdoc_rr r =
          lit ''{% requestresponse method="'' @ rr_method r @ lit ''" requests=['' @
          join (lit '','')
            (map (\<lambda>req. lit ''{language: "'' @ language req @ lit ''", code: "'' @
                        stringifyCode (code req) @ lit ''"}'') (rr_requests r)) @
          lit ''] response="'' @ stringifyCode (rr_response r) @ lit ''" /%}''\<close>
    by (simp add: generateMarkdoc_rr_def hasErrors_rr_def q)
next
  have q: \<open>buttonItemStr = (\<lambda>item. lit ''{ label: "'' @ label item @ lit ''", link: "'' @
                         link item @ lit ''" }'')\<close>
    by (rule ext) (simp add: buttonItemStr_def)
  assume "\<not> hasErrors_bl b"
  then show \<open>generateMarkdoc_bl b =
          lit ''{% buttonlist items=[ '' @
          join (lit '', '')
            (map (\<lambda>item. lit ''{ label: "'' @ label item @ lit ''", link: "'' @
                         link item @ lit ''" }'') (bl_items b)) @
          lit '' ] /%}''\<close>
    by (simp add: generateMarkdoc_bl_def hasErrors_bl_def q)
qed

theorem escaping_of_values_witness:
  \<open>stringifyCode (lit ''it's'' @ [LF] @ lit ''  ok'')
     = lit ''it'' @ [BACKSLASH, SQUOTE] @ lit ''s'' @ [BACKSLASH] @ lit ''n ok''
   \<and> escapeLeftToRight (trim (lit ''it's'' @ [LF] @ lit ''  ok''))
     = lit ''it'' @ [BACKSLASH, SQUOTE] @ lit ''s'' @ [BACKSLASH] @ lit ''n ok''
   \<and> stringifyCode ([LF] @ lit ''a'' @ [LF]) = lit ''a''
   \<and> count_list (stringifyCode (lit ''it's'' @ [LF] @ lit ''  ok'')) SQUOTE = 1
   \<and> everyEscaped SQUOTE (stringifyCode (lit ''it's'' @ [LF] @ lit ''  ok''))
   \<and> \<not> hasErrors_rr curl_rr
   \<and> generateMarkdoc_rr curl_rr
     = lit ''{% requestresponse method="GET" requests=[{language: "cURL", code: "curl -d '' @
       [BACKSLASH, SQUOTE] @ lit ''x'' @ [BACKSLASH, SQUOTE] @
       lit '' -v"}] response="ok" /%}''
   \<and> \<not> hasErrors_bl home_bl
   \<and> generateMarkdoc_bl home_bl
     = lit ''{% buttonlist items=[ { label: "Home", link: "/docs" } ] /%}''\<close>
  using escaping_of_values [of "lit ''it's'' @ [LF] @ lit ''  ok''" curl_rr home_bl]
  by (simp add: hasErrors_rr_def hasErrors_bl_def curl_rr_def home_bl_def str_eval)

text \<open>
  C2 as stated fails. A valid button list whose label is \<^verbatim>\<open>it's  here\<close> (a single
  quote, two spaces) serializes with the label unchanged: the quote is not preceded
  by a backslash and the whitespace run is not collapsed, and the skeleton itself
  holds no single quote and no whitespace run. In the request/response widget the
  double quotes of a code value pass through \<open>stringifyCode\<close> as they are.
\<close>

theorem values_not_escaped_counterexample:
  \<open>\<not> hasErrors_bl
        \<lparr>bl_items = [\<lparr>label = lit ''it's  here'', link = lit ''/x'', item_id = lit ''1''\<rparr>],
         bl_copied = False\<rparr>
   \<and> generateMarkdoc_bl
        \<lparr>bl_items = [\<lparr>label = lit ''it's  here'', link = lit ''/x'', item_id = lit ''1''\<rparr>],
         bl_copied = False\<rparr>
     = lit ''{% buttonlist items=[ { label: "it's  here", link: "/x" } ] /%}''
   \<and> \<not> everyEscaped SQUOTE (generateMarkdoc_bl
        \<lparr>bl_items = [\<lparr>label = lit ''it's  here'', link = lit ''/x'', item_id = lit ''1''\<rparr>],
         bl_copied = False\<rparr>)
   \<and> \<not> whitespaceCollapsed (generateMarkdoc_bl
        \<lparr>bl_items = [\<lparr>label = lit ''it's  here'', link = lit ''/x'', item_id = lit ''1''\<rparr>],
         bl_copied = False\<rparr>)
   \<and> stringifyCode (lit ''echo "hi"'') = lit ''echo "hi"''
   \<and> \<not> everyEscaped DQUOTE (stringifyCode (lit ''echo "hi"''))\<close>
  by (simp add: hasErrors_bl_def generateMarkdoc_bl_def buttonItemStr_def everyEscaped_def
      whitespaceCollapsed_def str_eval)

subsection \<open>C3: removal and the size of the list\<close>

text \<open>
  C3 fails on the code. The two id-addressed widgets number a new entry with the
  list length plus one, so after add, remove of entry 1 and add again both entries
  carry the id \<^verbatim>\<open>2\<close>; the list then has two entries, the guard for a one-entry
  list does not apply, and removing id \<^verbatim>\<open>2\<close> filters out both: the entry count
  drops from two to zero.
\<close>

theorem remove_empties_list:
  "length (bl_items (removeItem (lit ''2'')
      (addItem (removeItem (lit ''1'') (addItem init_bl))))) = 0
   \<and> length (rr_requests (removeRequestBlock (lit ''2'')
      (addRequestBlock (removeRequestBlock (lit ''1'') (addRequestBlock init_rr))))) = 0
   \<and> length (rp_requests (removeRequestBlock_plain (lit ''2'')
      (addRequestBlock_plain
        (removeRequestBlock_plain (lit ''1'') (addRequestBlock_plain init_plain))))) = 0"
  by (simp add: bl_eval rr_eval rp_eval)

subsection \<open>C4: the url validator\<close>

text \<open>
  C4: the url validator returns a non-empty message exactly when the candidate is
  empty or does not start with \<^verbatim>\<open>/docs\<close>; the prefix followed by any suffix
  validates to the empty string.
\<close>

theorem validateUrl_spec:
  "(validateUrl u \<noteq> []) = (u = [] \<or> \<not> startsWith u (lit ''/docs''))
   \<and> validateUrl (lit ''/docs'' @ suffix) = []"
  by (simp add: validateUrl_def startsWith_append lit_docs_nonempty) (simp add: lit_def)

theorem validateUrl_spec_witness:
  "validateUrl (lit ''/docs/guide'') = []
   \<and> validateUrl (lit ''/api/guide'') = lit ''URL must start with /docs''
   \<and> validateUrl [] = lit ''URL is required''"
  using validateUrl_spec [of "lit ''/docs/guide''" "lit ''/guide''"]
  by (simp add: validateUrl_def startsWith_def lit_def)

subsection \<open>C5: an invalid field gives the placeholder\<close>

text \<open>
  C5: in every widget state in which a required field of some entry is invalid (an
  empty title, label, code or response; a url that is empty or lacks the prefix; the
  see-also link counts while it is switched on), the serializer returns the
  widget's placeholder comment and the widget's error predicate, which disables the
  copy button, holds.
\<close>

theorem invalid_field_gives_placeholder:
  "((l \<in> set (df_links d) \<and>
       (title l = [] \<or> url l = [] \<or> \<not> startsWith (url l) (lit ''/docs'')))
      \<or> (df_showSeeAlso d \<and> df_seeAlso d = Some sa \<and>
          (title sa = [] \<or> url sa = [] \<or> \<not> startsWith (url sa) (lit ''/docs'')))
     \<longrightarrow> generateMarkdoc_df d = placeholder_df \<and> hasErrors_df d)
   \<and> (item \<in> set (bl_items b) \<and> (label item = [] \<or> link item = [])
     \<longrightarrow> generateMarkdoc_bl b = placeholder_bl \<and> hasErrors_bl b)
   \<and> ((req \<in> set (rr_requests r) \<and> code req = []) \<or> rr_response r = []
     \<longrightarrow> generateMarkdoc_rr r = placeholder_rr \<and> hasErrors_rr r)
   \<and> ((req' \<in> set (rp_requests p) \<and> code req' = []) \<or> rp_response p = []
     \<longrightarrow> generateMarkdoc_plain p = placeholder_rr \<and> hasErrors_plain p)"
proof (intro conjI impI)
  assume a: "(l \<in> set (df_links d) \<and>
       (title l = [] \<or> url l = [] \<or> \<not> startsWith (url l) (lit ''/docs'')))
      \<or> (df_showSeeAlso d \<and> df_seeAlso d = Some sa \<and>
          (title sa = [] \<or> url sa = [] \<or> \<not> startsWith (url sa) (lit ''/docs'')))"
  have inv: "linkHasError x"
    if "title x = [] \<or> url x = [] \<or> \<not> startsWith (url x) (lit ''/docs'')" for x
    using that by (auto simp: linkHasError_def validateUrl_def lit_def)
  from a show e: "hasErrors_df d"
    by (auto simp: hasErrors_df_def intro: list_ex_member inv)
  then show "generateMarkdoc_df d = placeholder_df"
    by (simp add: generateMarkdoc_df_def)
next
  assume a: "item \<in> set (bl_items b) \<and> (label item = [] \<or> link item = [])"
  then show e: "hasErrors_bl b"
    by (auto simp: hasErrors_bl_def list_ex_iff)
  then show "generateMarkdoc_bl b = placeholder_bl"
    by (simp add: generateMarkdoc_bl_def hasErrors_bl_def)
next
  assume a: "(req \<in> set (rr_requests r) \<and> code req = []) \<or> rr_response r = []"
  then show e: "hasErrors_rr r"
    by (auto simp: hasErrors_rr_def list_ex_iff)
  then show "generateMarkdoc_rr r = placeholder_rr"
    by (simp add: generateMarkdoc_rr_def hasErrors_rr_def)
next
  assume a: "(req' \<in> set (rp_requests p) \<and> code req' = []) \<or> rp_response p = []"
  then show e: "hasErrors_plain p"
    by (auto simp: hasErrors_plain_def list_ex_iff)
  then show "generateMarkdoc_plain p = placeholder_rr"
    by (simp add: generateMarkdoc_plain_def hasErrors_plain_def)
qed

theorem invalid_field_gives_placeholder_witness:
  "generateMarkdoc_bl
      \<lparr>bl_items = [\<lparr>label = [], link = lit ''/docs'', item_id = lit ''1''\<rparr>],
       bl_copied = False\<rparr> = placeholder_bl
   \<and> hasErrors_bl
      \<lparr>bl_items = [\<lparr>label = [], link = lit ''/docs'', item_id = lit ''1''\<rparr>],
       bl_copied = False\<rparr>
   \<and> generateMarkdoc_df init_df = placeholder_df \<and> hasErrors_df init_df
   \<and> generateMarkdoc_rr init_rr = placeholder_rr \<and> hasErrors_rr init_rr
   \<and> generateMarkdoc_plain init_plain = placeholder_rr \<and> hasErrors_plain init_plain"
  using invalid_field_gives_placeholder
    [of emptyLink init_df emptyLink
        "\<lparr>label = [], link = lit ''/docs'', item_id = lit ''1''\<rparr>"
        "\<lparr>bl_items = [\<lparr>label = [], link = lit ''/docs'', item_id = lit ''1''\<rparr>],
          bl_copied = False\<rparr>"
        "\<lparr>language = lit ''cURL'', code = [], req_id = lit ''1''\<rparr>" init_rr
        "\<lparr>language = lit ''cURL'', code = [], req_id = lit ''1''\<rparr>" init_plain]
  by (simp add: init_df_def emptyLink_def init_rr_def init_plain_def)

subsection \<open>C6: copying is gated on validation\<close>

text \<open>
  C6: while a widget's error predicate holds, its copy handler asks nothing of the
  browser (no clipboard write, no timer, no log) and returns the state unchanged;
  when the predicate does not hold, the handler makes exactly one clipboard write,
  of the serialized string, whether or not the browser then accepts it.
\<close>

theorem copy_gated_on_validation:
  "(if hasErrors_df d then handleCopy_df ok d = (d, [])
    else clipboardWrites (snd (handleCopy_df ok d)) = [generateMarkdoc_df d])
   \<and> (if hasErrors_bl b then handleCopy_bl ok b = (b, [])
    else clipboardWrites (snd (handleCopy_bl ok b)) = [generateMarkdoc_bl b])
   \<and> (if hasErrors_rr r then handleCopy_rr ok r = (r, [])
    else clipboardWrites (snd (handleCopy_rr ok r)) = [generateMarkdoc_rr r])
   \<and> (if hasErrors_plain p then handleCopy_plain ok p = (p, [])
    else clipboardWrites (snd (handleCopy_plain ok p)) = [generateMarkdoc_plain p])"
  by (simp add: handleCopy_df_def handleCopy_bl_def handleCopy_rr_def handleCopy_plain_def
      hasErrors_bl_def hasErrors_rr_def hasErrors_plain_def)

theorem copy_gated_on_validation_witness:
  \<open>handleCopy_df True init_df = (init_df, [])
   \<and> handleCopy_bl True init_bl = (init_bl, [])
   \<and> handleCopy_rr True init_rr = (init_rr, [])
   \<and> handleCopy_plain True init_plain = (init_plain, [])
   \<and> clipboardWrites (snd (handleCopy_df False guide_df))
     = [lit ''{% docfooter relatedLinks=[{'title':'Guide','url':'/docs/guide'}] /%}'']
   \<and> clipboardWrites (snd (handleCopy_bl False home_bl))
     = [lit ''{% buttonlist items=[ { label: "Home", link: "/docs" } ] /%}'']
   \<and> clipboardWrites (snd (handleCopy_rr False curl_rr)) = [generateMarkdoc_rr curl_rr]
   \<and> clipboardWrites (snd (handleCopy_plain False curl_plain))
     = [generateMarkdoc_plain curl_plain]\<close>
proof -
  have e: "hasErrors_df init_df \<and> hasErrors_bl init_bl \<and> hasErrors_rr init_rr
      \<and> hasErrors_plain init_plain"
    by (simp add: init_df_def init_bl_def init_rr_def init_plain_def emptyLink_def
        hasErrors_df_def hasErrors_bl_def hasErrors_rr_def hasErrors_plain_def
        linkHasError_def validateUrl_def lit_def)
  have v: "\<not> hasErrors_df guide_df \<and> \<not> hasErrors_bl home_bl \<and> \<not> hasErrors_rr curl_rr
      \<and> \<not> hasErrors_plain curl_plain"
    by (simp add: guide_df_def home_bl_def curl_rr_def curl_plain_def
        hasErrors_df_def hasErrors_bl_def hasErrors_rr_def hasErrors_plain_def
        linkHasError_def validateUrl_def startsWith_def lit_def)
  have g: "generateMarkdoc_df guide_df
      = lit ''{% docfooter relatedLinks=[{'title':'Guide','url':'/docs/guide'}] /%}''"
    by (simp add: guide_df_def df_eval)
  have h: \<open>generateMarkdoc_bl home_bl
      = lit ''{% buttonlist items=[ { label: "Home", link: "/docs" } ] /%}''\<close>
    by (simp add: home_bl_def generateMarkdoc_bl_def buttonItemStr_def lit_def)
  show ?thesis
    using copy_gated_on_validation [of init_df True init_bl init_rr init_plain]
      copy_gated_on_validation [of guide_df False home_bl curl_rr curl_plain]
    by (simp add: e v g h)
qed

subsection \<open>C7: serialization is deterministic\<close>

text \<open>
  C7: the serialized string is a function of the user's input held in the state and
  of nothing else. Two invocations on states that hold the same input (for the
  docfooter the titles and urls of the links, the see-also switch and the see-also
  title and url; for the button list the labels and links; for the request/response
  widget the method, the languages and codes, and the response) return the
  identical string, whatever the two states hold besides: the \<^verbatim>\<open>copied\<close> indicator,
  the stored \<^verbatim>\<open>urlError\<close>, the entry ids, the highlighted markup. Equal states are
  the special case in which these agree as well.
\<close>

theorem serialization_deterministic:
  "(map (\<lambda>l. (title l, url l)) (df_links d1) = map (\<lambda>l. (title l, url l)) (df_links d2)
      \<and> df_showSeeAlso d1 = df_showSeeAlso d2
      \<and> map_option (\<lambda>l. (title l, url l)) (df_seeAlso d1)
          = map_option (\<lambda>l. (title l, url l)) (df_seeAlso d2)
     \<longrightarrow> generateMarkdoc_df d1 = generateMarkdoc_df d2)
   \<and> (map (\<lambda>i. (label i, link i)) (bl_items b1) = map (\<lambda>i. (label i, link i)) (bl_items b2)
     \<longrightarrow> generateMarkdoc_bl b1 = generateMarkdoc_bl b2)
   \<and> (rr_method r1 = rr_method r2
      \<and> map (\<lambda>q. (language q, code q)) (rr_requests r1)
          = map (\<lambda>q. (language q, code q)) (rr_requests r2)
      \<and> rr_response r1 = rr_response r2
     \<longrightarrow> generateMarkdoc_rr r1 = generateMarkdoc_rr r2)
   \<and> (rp_method p1 = rp_method p2
      \<and> map (\<lambda>q. (language q, code q)) (rp_requests p1)
          = map (\<lambda>q. (language q, code q)) (rp_requests p2)
      \<and> rp_response p1 = rp_response p2
     \<longrightarrow> generateMarkdoc_plain p1 = generateMarkdoc_plain p2)"
proof (intro conjI impI)
  assume "map (\<lambda>l. (title l, url l)) (df_links d1) = map (\<lambda>l. (title l, url l)) (df_links d2)
      \<and> df_showSeeAlso d1 = df_showSeeAlso d2
      \<and> map_option (\<lambda>l. (title l, url l)) (df_seeAlso d1)
          = map_option (\<lambda>l. (title l, url l)) (df_seeAlso d2)"
  then have a: "map (\<lambda>l. (title l, url l)) (df_links d1)
        = map (\<lambda>l. (title l, url l)) (df_links d2)"
    and b: "df_showSeeAlso d1 = df_showSeeAlso d2"
    and c: "map_option (\<lambda>l. (title l, url l)) (df_seeAlso d1)
        = map_option (\<lambda>l. (title l, url l)) (df_seeAlso d2)"
    by simp_all
  have l: "list_ex linkHasError (df_links d1) = list_ex linkHasError (df_links d2)"
    by (rule list_ex_determined [OF _ a]) (simp add: linkHasError_def)
  have o: "(case df_seeAlso d1 of None \<Rightarrow> False | Some sa \<Rightarrow> linkHasError sa)
      = (case df_seeAlso d2 of None \<Rightarrow> False | Some sa \<Rightarrow> linkHasError sa)"
    using c by (cases "df_seeAlso d1"; cases "df_seeAlso d2") (simp_all add: linkHasError_def)
  have e: "hasErrors_df d1 = hasErrors_df d2"
    by (simp only: hasErrors_df_def l o b)
  have s: "seeAlsoParts d1 = seeAlsoParts d2"
    using b c by (cases "df_seeAlso d1"; cases "df_seeAlso d2") (simp_all add: seeAlsoParts_def)
  show "generateMarkdoc_df d1 = generateMarkdoc_df d2"
    by (simp only: generateMarkdoc_df_def a e s)
next
  assume a: "map (\<lambda>i. (label i, link i)) (bl_items b1) = map (\<lambda>i. (label i, link i)) (bl_items b2)"
  have e: "list_ex (\<lambda>item. label item = [] \<or> link item = []) (bl_items b1)
      = list_ex (\<lambda>item. label item = [] \<or> link item = []) (bl_items b2)"
    by (rule list_ex_determined [OF _ a]) simp
  have m: "map buttonItemStr (bl_items b1) = map buttonItemStr (bl_items b2)"
    by (rule map_determined [OF _ a]) (simp add: buttonItemStr_def)
  show "generateMarkdoc_bl b1 = generateMarkdoc_bl b2"
    by (simp only: generateMarkdoc_bl_def e m)
next
  assume "rr_method r1 = rr_method r2
      \<and> map (\<lambda>q. (language q, code q)) (rr_requests r1)
          = map (\<lambda>q. (language q, code q)) (rr_requests r2)
      \<and> rr_response r1 = rr_response r2"
  then have a: "map (\<lambda>q. (language q, code q)) (rr_requests r1)
          = map (\<lambda>q. (language q, code q)) (rr_requests r2)"
    and b: "rr_method r1 = rr_method r2" and c: "rr_response r1 = rr_response r2"
    by simp_all
  have e: "list_ex (\<lambda>req. code req = []) (rr_requests r1)
      = list_ex (\<lambda>req. code req = []) (rr_requests r2)"
    by (rule list_ex_determined [OF _ a]) simp
  have m: "map requestStr (rr_requests r1) = map requestStr (rr_requests r2)"
    by (rule map_determined [OF _ a]) (simp add: requestStr_def)
  show "generateMarkdoc_rr r1 = generateMarkdoc_rr r2"
    by (simp only: generateMarkdoc_rr_def e m b c)
next
  assume "rp_method p1 = rp_method p2
      \<and> map (\<lambda>q. (language q, code q)) (rp_requests p1)
          = map (\<lambda>q. (language q, code q)) (rp_requests p2)
      \<and> rp_response p1 = rp_response p2"
  then have a: "map (\<lambda>q. (language q, code q)) (rp_requests p1)
          = map (\<lambda>q. (language q, code q)) (rp_requests p2)"
    and b: "rp_method p1 = rp_method p2" and c: "rp_response p1 = rp_response p2"
    by simp_all
  have e: "list_ex (\<lambda>req. code req = []) (rp_requests p1)
      = list_ex (\<lambda>req. code req = []) (rp_requests p2)"
    by (rule list_ex_determined [OF _ a]) simp
  have m: "map requestStr_plain (rp_requests p1) = map requestStr_plain (rp_requests p2)"
    by (rule map_determined [OF _ a]) (simp add: requestStr_plain_def)
  show "generateMarkdoc_plain p1 = generateMarkdoc_plain p2"
    by (simp only: generateMarkdoc_plain_def e m b c)
qed

text \<open>
  Valid forms that hold the same input and differ in everything else serialize to
  the same template string (not the placeholder).
\<close>

theorem serialization_deterministic_witness:
  \<open>generateMarkdoc_df guide_df = generateMarkdoc_df guide_df_copied
   \<and> generateMarkdoc_df guide_df_copied
     = lit ''{% docfooter relatedLinks=[{'title':'Guide','url':'/docs/guide'}] /%}''
   \<and> generateMarkdoc_bl home_bl = generateMarkdoc_bl home_bl_copied
   \<and> generateMarkdoc_bl home_bl_copied
     = lit ''{% buttonlist items=[ { label: "Home", link: "/docs" } ] /%}''
   \<and> generateMarkdoc_rr curl_rr = generateMarkdoc_rr curl_rr_copied
   \<and> generateMarkdoc_rr curl_rr_copied
     = lit ''{% requestresponse method="GET" requests=[{language: "cURL", code: "curl -d '' @
       [BACKSLASH, SQUOTE] @ lit ''x'' @ [BACKSLASH, SQUOTE] @
       lit '' -v"}] response="ok" /%}''
   \<and> generateMarkdoc_plain curl_plain = generateMarkdoc_plain curl_plain_copied
   \<and> guide_df \<noteq> guide_df_copied \<and> home_bl \<noteq> home_bl_copied
   \<and> curl_rr \<noteq> curl_rr_copied \<and> curl_plain \<noteq> curl_plain_copied\<close>
proof -
  have g: "generateMarkdoc_df guide_df_copied
      = lit ''{% docfooter relatedLinks=[{'title':'Guide','url':'/docs/guide'}] /%}''"
    by (simp add: guide_df_copied_def df_eval)
  have h: \<open>generateMarkdoc_bl home_bl_copied
      = lit ''{% buttonlist items=[ { label: "Home", link: "/docs" } ] /%}''\<close>
    by (simp add: home_bl_copied_def generateMarkdoc_bl_def buttonItemStr_def lit_def)
  have r: \<open>generateMarkdoc_rr curl_rr_copied
     = lit ''{% requestresponse method="GET" requests=[{language: "cURL", code: "curl -d '' @
       [BACKSLASH, SQUOTE] @ lit ''x'' @ [BACKSLASH, SQUOTE] @
       lit '' -v"}] response="ok" /%}''\<close>
    by (simp add: curl_rr_copied_def generateMarkdoc_rr_def requestStr_def str_eval)
  have n: "guide_df \<noteq> guide_df_copied \<and> home_bl \<noteq> home_bl_copied
      \<and> curl_rr \<noteq> curl_rr_copied \<and> curl_plain \<noteq> curl_plain_copied"
    by (simp add: guide_df_def guide_df_copied_def home_bl_def home_bl_copied_def
        curl_rr_def curl_rr_copied_def curl_plain_def curl_plain_copied_def)
  have i: "map (\<lambda>l. (title l, url l)) (df_links guide_df)
        = map (\<lambda>l. (title l, url l)) (df_links guide_df_copied)
      \<and> df_showSeeAlso guide_df = df_showSeeAlso guide_df_copied
      \<and> map_option (\<lambda>l. (title l, url l)) (df_seeAlso guide_df)
          = map_option (\<lambda>l. (title l, url l)) (df_seeAlso guide_df_copied)"
    by (simp add: guide_df_def guide_df_copied_def)
  have j: "map (\<lambda>i. (label i, link i)) (bl_items home_bl)
        = map (\<lambda>i. (label i, link i)) (bl_items home_bl_copied)"
    by (simp add: home_bl_def home_bl_copied_def)
  have k: "rr_method curl_rr = rr_method curl_rr_copied
      \<and> map (\<lambda>q. (language q, code q)) (rr_requests curl_rr)
          = map (\<lambda>q. (language q, code q)) (rr_requests curl_rr_copied)
      \<and> rr_response curl_rr = rr_response curl_rr_copied"
    by (simp add: curl_rr_def curl_rr_copied_def)
  have l: "rp_method curl_plain = rp_method curl_plain_copied
      \<and> map (\<lambda>q. (language q, code q)) (rp_requests curl_plain)
          = map (\<lambda>q. (language q, code q)) (rp_requests curl_plain_copied)
      \<and> rp_response curl_plain = rp_response curl_plain_copied"
    by (simp add: curl_plain_def curl_plain_copied_def)
  have "generateMarkdoc_df guide_df = generateMarkdoc_df guide_df_copied
      \<and> generateMarkdoc_bl home_bl = generateMarkdoc_bl home_bl_copied
      \<and> generateMarkdoc_rr curl_rr = generateMarkdoc_rr curl_rr_copied
      \<and> generateMarkdoc_plain curl_plain = generateMarkdoc_plain curl_plain_copied"
    using serialization_deterministic
      [of guide_df guide_df_copied home_bl home_bl_copied curl_rr curl_rr_copied
          curl_plain curl_plain_copied] i j k l
    by blast
  with g h r n show ?thesis by simp
qed

subsection \<open>C8: the two RequestResponse versions agree\<close>

text \<open>
  C8: for every method, request list and response string, the version with
  highlighting and the plain version compute the same \<open>stringifyCode\<close>, the same
  serialized string and the same error predicate, whatever the \<^verbatim>\<open>copied\<close>
  indicators and the highlighting dictionary hold.
\<close>

theorem variants_agree:
  "stringifyCode c = stringifyCode_plain c
   \<and> generateMarkdoc_rr \<lparr>rr_method = m, rr_requests = rs, rr_response = resp,
        rr_copied = cp, rr_highlightedCode = h\<rparr>
     = generateMarkdoc_plain \<lparr>rp_method = m, rp_requests = rs, rp_response = resp,
        rp_copied = cp'\<rparr>
   \<and> hasErrors_rr \<lparr>rr_method = m, rr_requests = rs, rr_response = resp,
        rr_copied = cp, rr_highlightedCode = h\<rparr>
     = hasErrors_plain \<lparr>rp_method = m, rp_requests = rs, rp_response = resp,
        rp_copied = cp'\<rparr>"
proof -
  have s: "stringifyCode = stringifyCode_plain"
    by (rule ext) (simp add: stringifyCode_def stringifyCode_plain_def)
  have q: "requestStr = requestStr_plain"
    by (rule ext) (simp add: requestStr_def requestStr_plain_def s)
  show ?thesis
    by (simp add: s q generateMarkdoc_rr_def generateMarkdoc_plain_def hasErrors_rr_def
        hasErrors_plain_def)
qed

theorem variants_agree_witness:
  "stringifyCode (lit ''curl  -d 'x' -v'') = stringifyCode_plain (lit ''curl  -d 'x' -v'')
   \<and> generateMarkdoc_rr curl_rr = generateMarkdoc_plain curl_plain
   \<and> hasErrors_rr curl_rr = hasErrors_plain curl_plain
   \<and> \<not> hasErrors_plain curl_plain"
  using variants_agree [of "lit ''curl  -d 'x' -v''" "lit ''GET''"
      "[\<lparr>language = lit ''cURL'', code = lit ''curl  -d 'x' -v'', req_id = lit ''1''\<rparr>]"
      "lit ''ok''" False Map.empty False]
  by (simp add: curl_rr_def curl_plain_def) (simp add: hasErrors_plain_def lit_def)

subsection \<open>C9: generated identifiers are not unique\<close>

text \<open>
  C9: an add action gives the new entry the decimal string of the list length plus
  one. From the initial state, add, remove entry \<^verbatim>\<open>1\<close> and add again lead to two
  entries that both carry the id \<^verbatim>\<open>2\<close>, and one remove of id \<^verbatim>\<open>2\<close> then deletes
  both.
\<close>

theorem ids_not_unique:
  "bl_items (addItem b) =
     bl_items b @ [\<lparr>label = [], link = [], item_id = toString (length (bl_items b) + 1)\<rparr>]
   \<and> rr_requests (addRequestBlock r) =
     rr_requests r @ [\<lparr>language = lit ''cURL'', code = [],
                        req_id = toString (length (rr_requests r) + 1)\<rparr>]
   \<and> toString 12 = lit ''12''
   \<and> map item_id (bl_items (addItem (removeItem (lit ''1'') (addItem init_bl))))
       = [lit ''2'', lit ''2'']
   \<and> bl_items (removeItem (lit ''2'') (addItem (removeItem (lit ''1'') (addItem init_bl)))) = []
   \<and> map req_id (rr_requests
        (addRequestBlock (removeRequestBlock (lit ''1'') (addRequestBlock init_rr))))
       = [lit ''2'', lit ''2'']
   \<and> rr_requests (removeRequestBlock (lit ''2'')
        (addRequestBlock (removeRequestBlock (lit ''1'') (addRequestBlock init_rr)))) = []"
proof (intro conjI)
  show "bl_items (addItem b) =
     bl_items b @ [\<lparr>label = [], link = [], item_id = toString (length (bl_items b) + 1)\<rparr>]"
    by (simp add: addItem_def Let_def)
  show "rr_requests (addRequestBlock r) =
     rr_requests r @ [\<lparr>language = lit ''cURL'', code = [],
                        req_id = toString (length (rr_requests r) + 1)\<rparr>]"
    by (simp add: addRequestBlock_def Let_def)
  show "toString 12 = lit ''12''"
    by (simp add: toString.simps lit_def)
  show "map item_id (bl_items (addItem (removeItem (lit ''1'') (addItem init_bl))))
       = [lit ''2'', lit ''2'']"
    by (simp add: bl_eval)
  show "bl_items (removeItem (lit ''2'')
      (addItem (removeItem (lit ''1'') (addItem init_bl)))) = []"
    by (simp add: bl_eval)
  show "map req_id (rr_requests
        (addRequestBlock (removeRequestBlock (lit ''1'') (addRequestBlock init_rr))))
       = [lit ''2'', lit ''2'']"
    by (simp add: rr_eval)
  show "rr_requests (removeRequestBlock (lit ''2'')
        (addRequestBlock (removeRequestBlock (lit ''1'') (addRequestBlock init_rr)))) = []"
    by (simp add: rr_eval)
qed

theorem ids_not_unique_witness:
  "map item_id (bl_items (addItem init_bl)) = [lit ''1'', lit ''2'']
   \<and> map req_id (rr_requests (addRequestBlock init_rr)) = [lit ''1'', lit ''2'']"
  using ids_not_unique [of init_bl init_rr]
  by (simp add: init_bl_def init_rr_def toString.simps lit_def)

subsection \<open>C10: field edits and the other entries\<close>

text \<open>
  C10 fails on the code. In the state with two entries of id \<^verbatim>\<open>2\<close> (add, remove
  entry 1, add), editing the field of one of them rewrites both entries, since the
  update addresses every entry whose id matches: more than one entry changes.
\<close>

theorem update_changes_two_entries:
  "bl_items (addItem (removeItem (lit ''1'') (addItem init_bl)))
   = [\<lparr>label = [], link = [], item_id = lit ''2''\<rparr>,
      \<lparr>label = [], link = [], item_id = lit ''2''\<rparr>]
   \<and> bl_items (updateItem (lit ''2'') Label (lit ''Home'')
      (addItem (removeItem (lit ''1'') (addItem init_bl))))
   = [\<lparr>label = lit ''Home'', link = [], item_id = lit ''2''\<rparr>,
      \<lparr>label = lit ''Home'', link = [], item_id = lit ''2''\<rparr>]
   \<and> rr_requests (updateRequest (lit ''2'') Code (lit ''ls'')
      (addRequestBlock (removeRequestBlock (lit ''1'') (addRequestBlock init_rr))))
   = [\<lparr>language = lit ''cURL'', code = lit ''ls'', req_id = lit ''2''\<rparr>,
      \<lparr>language = lit ''cURL'', code = lit ''ls'', req_id = lit ''2''\<rparr>]"
  by (simp add: bl_eval rr_eval)

section \<open>Further properties of the code\<close>

text \<open>
  What does hold of removal: in every widget the remove action on a list of exactly one entry changes
  nothing (for the docfooter the button is disabled at that size), and whatever the
  user does with the DocFooterGenerator, its related-links list keeps at least one
  entry: its rows are addressed by position, so a removal deletes at most one.
\<close>

theorem remove_at_size_one_is_noop:
  "(length (df_links d) = 1 \<longrightarrow> clickRemoveLink k d = d)
   \<and> (length (bl_items b) = 1 \<longrightarrow> removeItem i b = b)
   \<and> (length (rr_requests r) = 1 \<longrightarrow> removeRequestBlock i r = r)
   \<and> (length (rp_requests p) = 1 \<longrightarrow> removeRequestBlock_plain i p = p)
   \<and> 1 \<le> length (df_links (run_df as))"
  using run_df_nonempty [of as]
  by (cases "df_links (run_df as)")
    (simp_all add: clickRemoveLink_def removeItem_def removeRequestBlock_def
      removeRequestBlock_plain_def)

theorem remove_at_size_one_is_noop_witness:
  "clickRemoveLink 0 init_df = init_df \<and> removeItem (lit ''1'') init_bl = init_bl
   \<and> removeRequestBlock (lit ''1'') init_rr = init_rr
   \<and> removeRequestBlock_plain (lit ''1'') init_plain = init_plain
   \<and> length (df_links (run_df [AddLink, RemoveLink 0, RemoveLink 0])) = 1"
  using remove_at_size_one_is_noop [of init_df 0 init_bl "lit ''1''" init_rr init_plain
      "[AddLink, RemoveLink 0, RemoveLink 0]"]
  by (simp add: init_df_def init_bl_def init_rr_def init_plain_def run_df_def
      handleAddLink_def clickRemoveLink_def handleRemoveLink_def)

text \<open>
  What does hold of field edits: a field edit never changes the length of the list, and it leaves unchanged
  every entry at another position (docfooter) or with another id (button list,
  request blocks); a button-list edit also keeps every id.
\<close>

theorem field_edit_frame:
  "length (df_links (handleLinkChange index lf v d)) = length (df_links d)
   \<and> (k < length (df_links d) \<and> k \<noteq> index \<longrightarrow>
        df_links (handleLinkChange index lf v d) ! k = df_links d ! k)
   \<and> length (bl_items (updateItem i bf v b)) = length (bl_items b)
   \<and> map item_id (bl_items (updateItem i bf v b)) = map item_id (bl_items b)
   \<and> (k < length (bl_items b) \<and> item_id (bl_items b ! k) \<noteq> i \<longrightarrow>
        bl_items (updateItem i bf v b) ! k = bl_items b ! k)
   \<and> length (rr_requests (updateRequest i rf v r)) = length (rr_requests r)
   \<and> (k < length (rr_requests r) \<and> req_id (rr_requests r ! k) \<noteq> i \<longrightarrow>
        rr_requests (updateRequest i rf v r) ! k = rr_requests r ! k)
   \<and> length (rp_requests (updateRequest_plain i rf v p)) = length (rp_requests p)
   \<and> (k < length (rp_requests p) \<and> req_id (rp_requests p ! k) \<noteq> i \<longrightarrow>
        rp_requests (updateRequest_plain i rf v p) ! k = rp_requests p ! k)"
proof -
  have ids: "item_id (setButtonField bf v item) = item_id item" for item
    by (cases bf) simp_all
  show ?thesis
    by (simp add: handleLinkChange_def updateItem_def updateRequest_def updateRequest_plain_def
        nth_enumerate_eq ids)
qed

theorem field_edit_frame_witness:
  "bl_items (updateItem (lit ''1'') Label (lit ''Home'') (addItem init_bl)) ! 1
     = bl_items (addItem init_bl) ! 1
   \<and> length (bl_items (updateItem (lit ''1'') Label (lit ''Home'') (addItem init_bl))) = 2
   \<and> df_links (handleLinkChange 0 Title (lit ''Guide'') (handleAddLink init_df)) ! 1
     = emptyLink
   \<and> rr_requests (updateRequest (lit ''1'') Code (lit ''ls'') (addRequestBlock init_rr)) ! 1
     = rr_requests (addRequestBlock init_rr) ! 1
   \<and> rp_requests (updateRequest_plain (lit ''1'') Code (lit ''ls'')
        (addRequestBlock_plain init_plain)) ! 1
     = rp_requests (addRequestBlock_plain init_plain) ! 1"
  using field_edit_frame [of 0 Title "lit ''Guide''" "handleAddLink init_df" 1 "lit ''1''" Label
      "addItem init_bl" Code "addRequestBlock init_rr" "addRequestBlock_plain init_plain"]
  by (simp add: bl_eval rr_eval rp_eval init_df_def handleAddLink_def handleLinkChange_def)

text \<open>
  What the serializers ignore: the serialized string does not depend on the \<^verbatim>\<open>copied\<close> indicator, on the
  stored \<^verbatim>\<open>urlError\<close> texts, on the entry ids or on the highlighting dictionary.
\<close>

theorem output_ignores_display_state:
  "generateMarkdoc_df (d\<lparr>df_copied := c\<rparr>) = generateMarkdoc_df d
   \<and> generateMarkdoc_df
        (d\<lparr>df_links := map (\<lambda>l. l\<lparr>urlError := e l\<rparr>) (df_links d)\<rparr>) = generateMarkdoc_df d
   \<and> generateMarkdoc_bl (b\<lparr>bl_copied := c\<rparr>) = generateMarkdoc_bl b
   \<and> generateMarkdoc_bl
        (b\<lparr>bl_items := map (\<lambda>item. item\<lparr>item_id := f item\<rparr>) (bl_items b)\<rparr>)
      = generateMarkdoc_bl b
   \<and> generateMarkdoc_rr (r\<lparr>rr_copied := c, rr_highlightedCode := h\<rparr>) = generateMarkdoc_rr r
   \<and> generateMarkdoc_rr
        (r\<lparr>rr_requests := map (\<lambda>req. req\<lparr>req_id := g req\<rparr>) (rr_requests r)\<rparr>)
      = generateMarkdoc_rr r"
proof (intro conjI)
  show "generateMarkdoc_df (d\<lparr>df_copied := c\<rparr>) = generateMarkdoc_df d"
    by (simp add: generateMarkdoc_df_def hasErrors_df_def seeAlsoParts_def split: option.splits)
  show "generateMarkdoc_df
        (d\<lparr>df_links := map (\<lambda>l. l\<lparr>urlError := e l\<rparr>) (df_links d)\<rparr>) = generateMarkdoc_df d"
    by (simp add: generateMarkdoc_df_def hasErrors_df_def seeAlsoParts_def list_ex_iff
        linkHasError_def comp_def split: option.splits)
  show "generateMarkdoc_bl (b\<lparr>bl_copied := c\<rparr>) = generateMarkdoc_bl b"
    by (simp add: generateMarkdoc_bl_def)
  have bs: "buttonItemStr \<circ> (\<lambda>item. item\<lparr>item_id := f item\<rparr>) = buttonItemStr"
    by (rule ext) (simp add: buttonItemStr_def)
  show "generateMarkdoc_bl
        (b\<lparr>bl_items := map (\<lambda>item. item\<lparr>item_id := f item\<rparr>) (bl_items b)\<rparr>)
      = generateMarkdoc_bl b"
    by (simp add: generateMarkdoc_bl_def list_ex_iff bs)
  show "generateMarkdoc_rr (r\<lparr>rr_copied := c, rr_highlightedCode := h\<rparr>) = generateMarkdoc_rr r"
    by (simp add: generateMarkdoc_rr_def)
  have rs: "requestStr \<circ> (\<lambda>req. req\<lparr>req_id := g req\<rparr>) = requestStr"
    by (rule ext) (simp add: requestStr_def)
  show "generateMarkdoc_rr
        (r\<lparr>rr_requests := map (\<lambda>req. req\<lparr>req_id := g req\<rparr>) (rr_requests r)\<rparr>)
      = generateMarkdoc_rr r"
    by (simp add: generateMarkdoc_rr_def list_ex_iff rs)
qed

theorem output_ignores_display_state_witness:
  "generateMarkdoc_df (guide_df\<lparr>df_copied := True\<rparr>) = generateMarkdoc_df guide_df
   \<and> generateMarkdoc_bl (home_bl\<lparr>bl_copied := True\<rparr>) = generateMarkdoc_bl home_bl
   \<and> generateMarkdoc_rr (curl_rr\<lparr>rr_copied := True, rr_highlightedCode := Map.empty\<rparr>)
     = generateMarkdoc_rr curl_rr"
  using output_ignores_display_state
    [where d = guide_df and c = True and b = home_bl and r = curl_rr and h = Map.empty]
  by simp

end
